theory Spec2Isabelle
  imports Main "HOL-Library.Sublist" "HOL-Library.Char_ord" "HOL-Library.List_Lexorder"
    "HOL-Library.AList"
begin

section \<open>Strings and names\<close>

text \<open>
  The graph builder of \<^verbatim>\<open>tf_graph_common/graph.ts\<close> works on node names, which are
  JavaScript strings. They are modelled as \<^typ>\<open>string\<close> (lists of characters); the
  functions below compare characters, split at the namespace delimiter and
  concatenate. Sorting orders names lexicographically by character code, as the
  default \<^verbatim>\<open>sort\<close> of JavaScript does by code unit; on ASCII names the two agree.
\<close>

definition NAMESPACE_DELIM :: char where
  "NAMESPACE_DELIM = CHR ''/''"

definition FUNCTION_LIBRARY_NODE_PREFIX :: string where
  "FUNCTION_LIBRARY_NODE_PREFIX = ''__function_library__''"

definition OUTPUT_SHAPES_KEY :: string where
  "OUTPUT_SHAPES_KEY = ''_output_shapes''"

definition XLA_CLUSTER_KEY :: string where
  "XLA_CLUSTER_KEY = ''_XlaCluster''"

text \<open>
  The dictionaries of the code are JavaScript objects, and an object written \<^verbatim>\<open>{}\<close>
  inherits the properties of \<^verbatim>\<open>Object.prototype\<close>: for a name the object has no
  property of its own under, \<^verbatim>\<open>name in obj\<close> still holds and \<^verbatim>\<open>obj[name]\<close> is a
  function (for \<^verbatim>\<open>__proto__\<close>, the prototype object) when the name is one of these.
  They are the names the language standard gives, with its annex for browsers; the
  repository adds none.
\<close>

definition objectPrototypeProperties :: "string list" where
  "objectPrototypeProperties =
     [''constructor'', ''hasOwnProperty'', ''isPrototypeOf'', ''propertyIsEnumerable'',
      ''toLocaleString'', ''toString'', ''valueOf'', ''__proto__'',
      ''__defineGetter__'', ''__defineSetter__'', ''__lookupGetter__'', ''__lookupSetter__'']"

definition inheritedName :: "string \<Rightarrow> bool" where
  "inheritedName nm = (nm \<in> set objectPrototypeProperties)"

text \<open>\<^verbatim>\<open>name.split(d)\<close>: the pieces between the delimiters; never the empty list.\<close>

fun split_delim :: "char \<Rightarrow> string \<Rightarrow> string list" where
  "split_delim d [] = [[]]"
| "split_delim d (c # cs) =
     (if c = d then [] # split_delim d cs
      else (case split_delim d cs of
              [] \<Rightarrow> [[c]]
            | p # ps \<Rightarrow> (c # p) # ps))"

text \<open>
  \<^verbatim>\<open>getStrictName\<close>: \<^verbatim>\<open>name + '/' + '(' + parts[parts.length - 1] + ')'\<close>.
\<close>

definition getStrictName :: "string \<Rightarrow> string" where
  "getStrictName nm =
     nm @ [NAMESPACE_DELIM] @ ''('' @ last (split_delim NAMESPACE_DELIM nm) @ '')''"

text \<open>
  \<^verbatim>\<open>getHierarchicalPath(name)\<close>, called without series names: every prefix of the
  name that ends right before a delimiter, in order, and then the name itself. The loop
  over \<^verbatim>\<open>indexOf\<close> is the recursion over the characters; \<open>pre\<close> is the part of the
  name already passed.
\<close>

fun parentPaths :: "string \<Rightarrow> string \<Rightarrow> string list" where
  "parentPaths pre [] = []"
| "parentPaths pre (c # cs) =
     (if c = NAMESPACE_DELIM then pre # parentPaths (pre @ [c]) cs
      else parentPaths (pre @ [c]) cs)"

definition getHierarchicalPath :: "string \<Rightarrow> string list" where
  "getHierarchicalPath nm = parentPaths [] nm @ [nm]"

section \<open>Input normalizer\<close>

record NormalizedInput =
  ni_name :: string
  ni_outputTensorKey :: string
  ni_isControlDependency :: bool

definition isDigit :: "char \<Rightarrow> bool" where
  "isDigit c = (c \<in> set ''0123456789'')"

definition isWordChar :: "char \<Rightarrow> bool" where
  "isWordChar c =
     (c \<in> set ''abcdefghijklmnopqrstuvwxyzABCDEFGHIJKLMNOPQRSTUVWXYZ0123456789_'')"

definition notColon :: "char \<Rightarrow> bool" where
  "notColon c = (c \<noteq> CHR '':'')"

text \<open>
  The second group of \<^verbatim>\<open>INPUT_NAME_PART_MATCHER\<close>, \<^verbatim>\<open>((\w+:|)\d+)$\<close>: either
  digits only, or word characters, a colon and digits, up to the end of the string.
\<close>

definition slotPart :: "string \<Rightarrow> bool" where
  "slotPart g =
     (case dropWhile notColon g of
        [] \<Rightarrow> g \<noteq> [] \<and> list_all isDigit g
      | _ # ds \<Rightarrow>
          takeWhile notColon g \<noteq> [] \<and> list_all isWordChar (takeWhile notColon g) \<and>
          ds \<noteq> [] \<and> list_all isDigit ds)"

text \<open>
  \<^verbatim>\<open>inputName.match(/^([^:]+):((\w+:|)\d+)$/)\<close>: the first group cannot hold a colon
  and is followed by one, so it is the text before the first colon; the result is the
  pair of the two groups, or \<open>None\<close> when the string does not match.
\<close>

definition INPUT_NAME_PART_MATCHER :: "string \<Rightarrow> (string \<times> string) option" where
  "INPUT_NAME_PART_MATCHER s =
     (case dropWhile notColon s of
        [] \<Rightarrow> None
      | _ # g2 \<Rightarrow>
          if takeWhile notColon s \<noteq> [] \<and> slotPart g2
          then Some (takeWhile notColon s, g2) else None)"

text \<open>The body of the loop of \<^verbatim>\<open>normalizeInputs\<close> up to the test on \<^verbatim>\<open>lastName\<close>.\<close>

definition parseInput :: "string \<Rightarrow> NormalizedInput" where
  "parseInput raw =
     (let isControlDependency = (case raw of [] \<Rightarrow> False | c # _ \<Rightarrow> c = CHR ''^'');
          inputName = (if isControlDependency then tl raw else raw);
          m = (if CHR '':'' \<in> set inputName then INPUT_NAME_PART_MATCHER inputName else None)
      in case m of
           None \<Rightarrow> \<lparr>ni_name = inputName, ni_outputTensorKey = ''0'',
                     ni_isControlDependency = isControlDependency\<rparr>
         | Some (g1, g2) \<Rightarrow> \<lparr>ni_name = g1, ni_outputTensorKey = g2,
                     ni_isControlDependency = isControlDependency\<rparr>)"

fun normalizeLoop ::
  "string option \<Rightarrow> NormalizedInput list \<Rightarrow> string list \<Rightarrow> NormalizedInput list" where
  "normalizeLoop lastName normalizedInputs [] = normalizedInputs"
| "normalizeLoop lastName normalizedInputs (raw # rest) =
     (let p = parseInput raw in
      if lastName \<noteq> Some (ni_name p)
      then normalizeLoop (Some (ni_name p)) (normalizedInputs @ [p]) rest
      else normalizeLoop lastName normalizedInputs rest)"

text \<open>\<^verbatim>\<open>normalizeInputs(inputs)\<close>; \<open>None\<close> is \<^verbatim>\<open>undefined\<close>, read as the empty list.\<close>

definition normalizeInputs :: "string list option \<Rightarrow> NormalizedInput list" where
  "normalizeInputs inputs =
     normalizeLoop None [] (case inputs of None \<Rightarrow> [] | Some xs \<Rightarrow> xs)"

section \<open>Name disambiguator\<close>

text \<open>
  \<^verbatim>\<open>mapStrictHierarchy\<close> sorts the names of the main nodes (JavaScript's default
  \<^verbatim>\<open>sort()\<close> on strings: lexicographic by character code, here the order of
  \<^typ>\<open>string\<close>), then runs two nested loops and a pass over the embedding names.
  Dictionaries that are only looked up are maps; the namespace set is a set.

  \<open>hasChildAfter a bs\<close> is the inner loop over the names \<open>bs\<close> that follow \<open>a\<close>: it
  goes on while the names start with \<open>a\<close> and says whether it reached the assignment
  \<^verbatim>\<open>newNameDictionary[a] = getStrictName(a)\<close> before a \<^verbatim>\<open>break\<close>.
\<close>

fun hasChildAfter :: "string \<Rightarrow> string list \<Rightarrow> bool" where
  "hasChildAfter a [] = False"
| "hasChildAfter a (b # bs) =
     (if prefix a b
      then (if length b > length a \<and> b ! length a = NAMESPACE_DELIM then True
            else hasChildAfter a bs)
      else False)"

text \<open>
  The outer loop, \<^verbatim>\<open>for (let i = 0; i < nodeNames.length - 1; ++i)\<close>: the last name
  of the sorted list is not visited.
\<close>

fun strictLoop ::
  "string list \<Rightarrow> (string \<rightharpoonup> string) \<times> string set \<Rightarrow> (string \<rightharpoonup> string) \<times> string set" where
  "strictLoop (a # b # rest) (newNameDictionary, namespaceSet) =
     strictLoop (b # rest)
       (if hasChildAfter a (b # rest)
        then newNameDictionary(a \<mapsto> getStrictName a) else newNameDictionary,
        namespaceSet \<union> set (butlast (getHierarchicalPath a)))"
| "strictLoop [a] st = st"
| "strictLoop [] st = st"

definition renameEmbedding ::
  "string set \<Rightarrow> string \<Rightarrow> (string \<rightharpoonup> string) \<Rightarrow> (string \<rightharpoonup> string)" where
  "renameEmbedding namespaceSet embeddingName newNameDictionary =
     (if embeddingName \<in> namespaceSet
      then newNameDictionary(embeddingName \<mapsto> getStrictName embeddingName)
      else newNameDictionary)"

definition mapStrictHierarchy :: "string list \<Rightarrow> string list \<Rightarrow> (string \<rightharpoonup> string)" where
  "mapStrictHierarchy nodeNames embeddingNodeNames =
     (case strictLoop (sort nodeNames) (Map.empty, {}) of
        (newNameDictionary, namespaceSet) \<Rightarrow>
          fold (renameEmbedding namespaceSet) embeddingNodeNames newNameDictionary)"

text \<open>
  \<open>isChildOf b a\<close>: the name \<open>a\<close> is a strict path prefix of \<open>b\<close> at a delimiter, that
  is, \<open>b\<close> is \<open>a\<close>, a delimiter and any rest. This is the collision the disambiguator
  looks for, stated on its own.
\<close>

definition isChildOf :: "string \<Rightarrow> string \<Rightarrow> bool" where
  "isChildOf b a = (prefix a b \<and> length a < length b \<and> b ! length a = NAMESPACE_DELIM)"

text \<open>
  The collapsing of the input normalizer as the specification words it: of a run of
  consecutive references with the same resolved name, only the first is kept. This
  definition follows the specification, not the code, and is there to be compared with
  \<open>normalizeInputs\<close>.
\<close>

fun collapseRuns :: "NormalizedInput list \<Rightarrow> NormalizedInput list" where
  "collapseRuns [] = []"
| "collapseRuns [x] = [x]"
| "collapseRuns (x # y # zs) =
     (if ni_name x = ni_name y then collapseRuns (x # zs) else x # collapseRuns (y # zs))"

section \<open>Graph data model\<close>

text \<open>
  The raw graph description (\<^verbatim>\<open>tf_graph_proto.GraphDef\<close>) and the nodes built from it.
  Fields carry a short prefix, since a record field is a constant of the whole theory.
  An attribute value is \<^verbatim>\<open>any\<close> in the source; the model keeps the parts the builder
  reads (\<^verbatim>\<open>value.list.shape\<close>, \<^verbatim>\<open>value['s']\<close>) and the \<^verbatim>\<open>type\<close> it writes for the
  nodes it makes of function arguments. \<open>None\<close> stands for \<^verbatim>\<open>undefined\<close> or \<^verbatim>\<open>null\<close>.
\<close>

datatype error = TypeError

record TensorShapeDim =
  dim_size :: "int option"

record TensorShapeProto =
  sh_unknown_rank :: bool
  sh_dim :: "TensorShapeDim list option"

record AttrListValue =
  lv_shape :: "TensorShapeProto list option"

record AttrValue =
  av_list :: "AttrListValue option"
  av_s :: "string option"
  av_type :: "string option"

record Attr =
  attr_key :: string
  attr_value :: AttrValue

text \<open>
  The \<^verbatim>\<open>input\<close> of a raw node: absent, a list of references, or (as the text format gives
  it for one input) a single string.
\<close>

datatype RawInput = NoInput | OneInput string | Inputs "string list"

record NodeDef =
  nd_name :: string
  nd_op :: string
  nd_device :: string
  nd_attr :: "Attr list option"
  nd_input :: RawInput

record ArgDef =
  arg_name :: string
  arg_type :: "string option"

text \<open>
  The argument lists of a function signature: absent, one object, or a sequence.
  \<open>OneArg\<close> stands for an object whose \<^verbatim>\<open>name\<close> is not empty, which is how the source
  tells it from a sequence.
\<close>

datatype ArgList = NoArgs | OneArg ArgDef | ManyArgs "ArgDef list"

record OpSignature =
  sig_name :: string
  sig_input_arg :: ArgList
  sig_output_arg :: ArgList

record FunctionDef =
  fd_signature :: OpSignature
  fd_node_def :: "NodeDef list"

record GraphDef =
  gd_node :: "NodeDef list"
  gd_library :: "FunctionDef list option"

record BuildParams =
  enableEmbedding :: bool
  inEmbeddingTypes :: "string list"
  outEmbeddingTypes :: "string list"
  refEdges :: "string \<rightharpoonup> bool"

record BaseEdge =
  edge_v :: string
  edge_w :: string
  edge_outputTensorKey :: string
  edge_isControlDependency :: bool
  isReferenceEdge :: bool

text \<open>
  Modelled from the spec: the class \<^verbatim>\<open>NodeStats\<close> is imported from \<^verbatim>\<open>./common\<close>, which is
  not among the sources. The specification says that the stats of a node accumulate the
  total of the non-negative byte allocations, the execution time as a pair of start and
  end, and the output tensor shapes as a list of lists of dimension sizes, and that the
  object is created on the first matching trace entry. So a new object has a byte count
  of zero and no execution time, \<open>addBytesAllocation\<close> adds to the byte count, and
  \<open>addExecutionTime\<close> records the interval, widening one that is already there.
\<close>

record NodeStats =
  totalBytes :: int
  executionTime :: "(int \<times> int) option"
  outputSize :: "int list list option"

definition newNodeStats :: "int list list option \<Rightarrow> NodeStats" where
  "newNodeStats sz = \<lparr>totalBytes = 0, executionTime = None, outputSize = sz\<rparr>"

definition addBytesAllocation :: "NodeStats \<Rightarrow> int \<Rightarrow> NodeStats" where
  "addBytesAllocation st b = st\<lparr>totalBytes := totalBytes st + b\<rparr>"

definition addExecutionTime :: "NodeStats \<Rightarrow> int \<Rightarrow> int \<Rightarrow> NodeStats" where
  "addExecutionTime st startTime endTime =
     st\<lparr>executionTime :=
          (case executionTime st of
             None \<Rightarrow> Some (startTime, endTime)
           | Some (s0, e0) \<Rightarrow> Some (min s0 startTime, max e0 endTime))\<rparr>"

type_synonym TensorShape = "int option list"

text \<open>
  \<^verbatim>\<open>OpNodeImpl\<close>. Nodes are objects that several tables and lists refer to and that are
  changed in place (their names, their embedding lists, their stats), so they live in a
  store: a list of nodes, an object being its index. The embedding lists hold indices.
  The fields that the constructor sets to a constant and that nothing here changes
  (\<^verbatim>\<open>type\<close>, \<^verbatim>\<open>isGroupNode\<close>, \<^verbatim>\<open>cardinality\<close>, \<^verbatim>\<open>parentNode\<close>, \<^verbatim>\<open>include\<close>,
  \<^verbatim>\<open>owningSeries\<close>) are left out.
\<close>

record OpNode =
  n_name :: string
  n_op :: string
  n_device :: string
  n_stats :: "NodeStats option"
  n_attr :: "Attr list option"
  n_inputs :: "NormalizedInput list"
  n_inEmbeddings :: "nat list"
  n_outEmbeddings :: "nat list"
  n_outputShapes :: "TensorShape option list option"
  n_xlaCluster :: "string option"
  n_compatible :: bool
  n_functionInputIndex :: "nat option"
  n_functionOutputIndex :: "nat option"

text \<open>
  \<^verbatim>\<open>SlimGraph\<close>: the node dictionary, from names to node objects, in insertion order, and
  the edge list.
\<close>

record SlimGraph =
  nodes :: "(string \<times> nat) list"
  edges :: "BaseEdge list"

section \<open>Building an op node\<close>

definition shapeOf :: "TensorShapeProto \<Rightarrow> TensorShape option" where
  "shapeOf shape =
     (if sh_unknown_rank shape then None
      else (case sh_dim shape of
              None \<Rightarrow> Some []
            | Some ds \<Rightarrow>
                if length ds = 1 \<and> dim_size (ds ! 0) = None then Some []
                else Some (map dim_size ds)))"

text \<open>
  \<^verbatim>\<open>extractOutputShapes\<close>, the loop over the attribute list: \<open>pre\<close> holds the entries
  already passed. The result is the shapes and the attribute list as the call leaves it:
  the entry of the output shapes is spliced out of the list when it holds a shape list.
  Reading \<^verbatim>\<open>value.list.shape\<close> when \<^verbatim>\<open>value.list\<close> is absent throws.
\<close>

fun extractOutputShapesLoop ::
  "Attr list \<Rightarrow> Attr list \<Rightarrow> error + (TensorShape option list option \<times> Attr list)" where
  "extractOutputShapesLoop pre [] = Inr (None, pre)"
| "extractOutputShapesLoop pre (a # rest) =
     (if attr_key a = OUTPUT_SHAPES_KEY
      then (case av_list (attr_value a) of
              None \<Rightarrow> Inl TypeError
            | Some l \<Rightarrow>
                (case lv_shape l of
                   None \<Rightarrow> Inr (None, pre @ a # rest)
                 | Some shapes \<Rightarrow> Inr (Some (map shapeOf shapes), pre @ rest)))
      else extractOutputShapesLoop (pre @ [a]) rest)"

definition extractOutputShapes ::
  "Attr list option \<Rightarrow> error + (TensorShape option list option \<times> Attr list option)" where
  "extractOutputShapes attr =
     (case attr of
        None \<Rightarrow> Inr (None, None)
      | Some as \<Rightarrow>
          (case extractOutputShapesLoop [] as of
             Inl e \<Rightarrow> Inl e
           | Inr (r, as') \<Rightarrow> Inr (r, Some as')))"

fun extractXlaClusterLoop :: "Attr list \<Rightarrow> string option" where
  "extractXlaClusterLoop [] = None"
| "extractXlaClusterLoop (a # rest) =
     (if attr_key a = XLA_CLUSTER_KEY
      then (case av_s (attr_value a) of
              None \<Rightarrow> None
            | Some c \<Rightarrow> if c = [] then None else Some c)
      else extractXlaClusterLoop rest)"

definition extractXlaCluster :: "Attr list option \<Rightarrow> string option" where
  "extractXlaCluster attr = (case attr of None \<Rightarrow> None | Some as \<Rightarrow> extractXlaClusterLoop as)"

text \<open>
  The list that \<^verbatim>\<open>normalizeInputs(rawNode.input)\<close> loops over: a string is iterated
  character by character.
\<close>

definition rawInputList :: "RawInput \<Rightarrow> string list option" where
  "rawInputList i =
     (case i of
        NoInput \<Rightarrow> None
      | OneInput str \<Rightarrow> Some (map (\<lambda>c. [c]) str)
      | Inputs xs \<Rightarrow> Some xs)"

text \<open>
  The constructor of \<^verbatim>\<open>OpNodeImpl\<close>. The node shares the attribute array of the raw node,
  which \<^verbatim>\<open>extractOutputShapes\<close> changes in place: the result is the new node and the raw
  node as the constructor leaves it.
\<close>

definition newOpNode :: "NodeDef \<Rightarrow> error + (OpNode \<times> NodeDef)" where
  "newOpNode rawNode =
     (case extractOutputShapes (nd_attr rawNode) of
        Inl e \<Rightarrow> Inl e
      | Inr (shapes, attr') \<Rightarrow>
          Inr (\<lparr>n_name = nd_name rawNode, n_op = nd_op rawNode, n_device = nd_device rawNode,
                n_stats = None, n_attr = attr',
                n_inputs = normalizeInputs (rawInputList (nd_input rawNode)),
                n_inEmbeddings = [], n_outEmbeddings = [],
                n_outputShapes = shapes, n_xlaCluster = extractXlaCluster attr',
                n_compatible = False,
                n_functionInputIndex = None, n_functionOutputIndex = None\<rparr>,
               rawNode\<lparr>nd_attr := attr'\<rparr>))"

section \<open>Graph builder\<close>

text \<open>
  \<^verbatim>\<open>build\<close> runs two tasks one after the other (the progress tracker only reports
  them): the first makes an op node of every raw node and of every library function and
  sorts the nodes into main nodes, in-embeddings and out-embeddings; the second builds
  the graph. The tables of the first task are the fields of \<open>BuildState\<close>; \<open>heap\<close> is
  the store of the node objects, and a new object gets the next index. The dictionaries
  \<^verbatim>\<open>outEmbedding\<close> and \<^verbatim>\<open>outEmbeddings\<close> are only looked up and are maps;
  \<^verbatim>\<open>inEmbedding\<close> is iterated at the end and keeps its keys in insertion order.
  The tables of the builder are read as plain dictionaries. That is what the code does
  on a description none of whose node names and input names is a property name of
  \<^verbatim>\<open>Object.prototype\<close> (\<open>noInheritedNames\<close> below says this of a description); on
  other descriptions the code finds inherited properties in its tables, and the model
  of \<^verbatim>\<open>build\<close> does not follow it there.
\<close>

record BuildState =
  heap :: "OpNode list"
  inEmbedding :: "(string \<times> nat) list"
  outEmbedding :: "string \<rightharpoonup> nat"
  outEmbeddings :: "string \<rightharpoonup> nat list"
  embeddingNodeNames :: "string list"
  opNodes :: "nat list"
  nodeNames :: "string list"

definition initialState :: BuildState where
  "initialState =
     \<lparr>heap = [], inEmbedding = [], outEmbedding = Map.empty, outEmbeddings = Map.empty,
      embeddingNodeNames = [], opNodes = [], nodeNames = []\<rparr>"

text \<open>
  \<^verbatim>\<open>getEmbedPredicate(types)\<close>. Regular expressions are not part of the repository: the
  argument \<open>matches\<close> says whether a string matches a pattern
  (\<^verbatim>\<open>op.match(new RegExp(pattern))\<close>), for patterns that are well formed.
\<close>

definition getEmbedPredicate ::
  "(string \<Rightarrow> string \<Rightarrow> bool) \<Rightarrow> string list \<Rightarrow> OpNode \<Rightarrow> bool" where
  "getEmbedPredicate matches types node = list_ex (\<lambda>t. matches t (n_op node)) types"

text \<open>
  The loop of \<^verbatim>\<open>processRawNode\<close> over the inputs of an out-embedding:
  \<^verbatim>\<open>outEmbeddings[inputName] = outEmbeddings[inputName] || []\<close> and the push.
\<close>

definition pushOutEmbedding ::
  "nat \<Rightarrow> NormalizedInput \<Rightarrow> (string \<rightharpoonup> nat list) \<Rightarrow> (string \<rightharpoonup> nat list)" where
  "pushOutEmbedding a input embs =
     embs(ni_name input \<mapsto>
       (case embs (ni_name input) of None \<Rightarrow> [] | Some l \<Rightarrow> l) @ [a])"

text \<open>
  \<^verbatim>\<open>processRawNode\<close>: the result is the new state, the new node object and the raw node
  as the constructor leaves it.
\<close>

definition processRawNode ::
  "(string \<Rightarrow> string \<Rightarrow> bool) \<Rightarrow> BuildParams \<Rightarrow> BuildState \<Rightarrow> NodeDef
     \<Rightarrow> error + (BuildState \<times> nat \<times> NodeDef)" where
  "processRawNode matches params st rawNode =
     (case newOpNode rawNode of
        Inl e \<Rightarrow> Inl e
      | Inr (opNode, rawNode') \<Rightarrow>
          (let a = length (heap st);
               st1 = st\<lparr>heap := heap st @ [opNode]\<rparr>
           in if getEmbedPredicate matches (inEmbeddingTypes params) opNode
              then Inr (st1\<lparr>embeddingNodeNames := embeddingNodeNames st1 @ [n_name opNode],
                            inEmbedding := AList.update (n_name opNode) a (inEmbedding st1)\<rparr>,
                        a, rawNode')
              else if getEmbedPredicate matches (outEmbeddingTypes params) opNode
              then Inr (st1\<lparr>embeddingNodeNames := embeddingNodeNames st1 @ [n_name opNode],
                            outEmbedding := (outEmbedding st1)(n_name opNode \<mapsto> a),
                            outEmbeddings :=
                              fold (pushOutEmbedding a) (n_inputs opNode) (outEmbeddings st1)\<rparr>,
                        a, rawNode')
              else Inr (st1\<lparr>opNodes := opNodes st1 @ [a],
                            nodeNames := nodeNames st1 @ [n_name opNode]\<rparr>,
                        a, rawNode')))"

text \<open>\<^verbatim>\<open>_.each(rawNodes, processRawNode)\<close>, with the raw nodes as the loop leaves them.\<close>

fun processRawNodes ::
  "(string \<Rightarrow> string \<Rightarrow> bool) \<Rightarrow> BuildParams \<Rightarrow> BuildState \<Rightarrow> NodeDef list
     \<Rightarrow> error + (BuildState \<times> NodeDef list)" where
  "processRawNodes matches params st [] = Inr (st, [])"
| "processRawNodes matches params st (rawNode # rest) =
     (case processRawNode matches params st rawNode of
        Inl e \<Rightarrow> Inl e
      | Inr (st1, a, rawNode') \<Rightarrow>
          (case processRawNodes matches params st1 rest of
             Inl e \<Rightarrow> Inl e
           | Inr (st2, rest') \<Rightarrow> Inr (st2, rawNode' # rest')))"

subsection \<open>Library functions\<close>

text \<open>
  \<^verbatim>\<open>processInput\<close>: a node for an input argument of a function, tagged with its index.
  The state of the loop is the build state and \<^verbatim>\<open>currentInputIndex\<close>.
\<close>

definition processInput ::
  "(string \<Rightarrow> string \<Rightarrow> bool) \<Rightarrow> BuildParams \<Rightarrow> string \<Rightarrow> BuildState \<times> nat \<Rightarrow> ArgDef
     \<Rightarrow> error + (BuildState \<times> nat)" where
  "processInput matches params functionNodeName sti arg =
     (case sti of (st, currentInputIndex) \<Rightarrow>
        (case processRawNode matches params st
                \<lparr>nd_name = functionNodeName @ [NAMESPACE_DELIM] @ arg_name arg,
                 nd_op = ''input_arg'', nd_device = '''',
                 nd_attr = Some [\<lparr>attr_key = ''T'',
                                   attr_value = \<lparr>av_list = None, av_s = None,
                                                  av_type = arg_type arg\<rparr>\<rparr>],
                 nd_input = Inputs []\<rparr> of
           Inl e \<Rightarrow> Inl e
         | Inr (st1, a, r) \<Rightarrow>
             Inr (st1\<lparr>heap := (heap st1)
                        [a := (heap st1 ! a)\<lparr>n_functionInputIndex := Some currentInputIndex\<rparr>]\<rparr>,
                  currentInputIndex + 1)))"

fun processInputs ::
  "(string \<Rightarrow> string \<Rightarrow> bool) \<Rightarrow> BuildParams \<Rightarrow> string \<Rightarrow> BuildState \<times> nat \<Rightarrow> ArgDef list
     \<Rightarrow> error + (BuildState \<times> nat)" where
  "processInputs matches params functionNodeName sti [] = Inr sti"
| "processInputs matches params functionNodeName sti (arg # args) =
     (case processInput matches params functionNodeName sti arg of
        Inl e \<Rightarrow> Inl e
      | Inr sti1 \<Rightarrow> processInputs matches params functionNodeName sti1 args)"

text \<open>The arguments of a list, whether it came as one object or as a sequence.\<close>

definition argsOf :: "ArgList \<Rightarrow> ArgDef list" where
  "argsOf al = (case al of NoArgs \<Rightarrow> [] | OneArg a \<Rightarrow> [a] | ManyArgs as \<Rightarrow> as)"

text \<open>\<^verbatim>\<open>processOutput\<close>: the state is \<^verbatim>\<open>outputArgNames\<close> and \<^verbatim>\<open>currentOutputIndex\<close>.\<close>

definition processOutput ::
  "string \<Rightarrow> ArgDef \<Rightarrow> (string \<rightharpoonup> nat) \<times> nat \<Rightarrow> (string \<rightharpoonup> nat) \<times> nat" where
  "processOutput functionNodeName arg oi =
     (case oi of (outputArgNames, currentOutputIndex) \<Rightarrow>
        (outputArgNames(functionNodeName @ [NAMESPACE_DELIM] @ arg_name arg \<mapsto> currentOutputIndex),
         currentOutputIndex + 1))"

text \<open>
  The body of the loop over \<^verbatim>\<open>func.node_def\<close>: the raw node is renamed in place, a
  single input string becomes a list, and after the node is processed its inputs are
  prefixed with the name of the function node.
\<close>

definition processBodyNode ::
  "(string \<Rightarrow> string \<Rightarrow> bool) \<Rightarrow> BuildParams \<Rightarrow> string \<Rightarrow> (string \<rightharpoonup> nat) \<Rightarrow> BuildState
     \<Rightarrow> NodeDef \<Rightarrow> error + (BuildState \<times> NodeDef)" where
  "processBodyNode matches params functionNodeName outputArgNames st rawNode =
     (let raw1 = rawNode\<lparr>nd_name := functionNodeName @ ''/'' @ nd_name rawNode,
                         nd_input := (case nd_input rawNode of
                                        OneInput str \<Rightarrow> Inputs [str]
                                      | NoInput \<Rightarrow> NoInput
                                      | Inputs xs \<Rightarrow> Inputs xs)\<rparr>
      in case processRawNode matches params st raw1 of
           Inl e \<Rightarrow> Inl e
         | Inr (st1, a, raw2) \<Rightarrow>
             (let opNode = heap st1 ! a;
                  opNode1 = (case outputArgNames (nd_name raw2) of
                               None \<Rightarrow> opNode
                             | Some k \<Rightarrow> opNode\<lparr>n_functionOutputIndex := Some k\<rparr>);
                  opNode2 = opNode1\<lparr>n_inputs :=
                    map (\<lambda>normalizedInput. normalizedInput\<lparr>ni_name :=
                           functionNodeName @ [NAMESPACE_DELIM] @ ni_name normalizedInput\<rparr>)
                      (n_inputs opNode1)\<rparr>
              in Inr (st1\<lparr>heap := (heap st1)[a := opNode2]\<rparr>, raw2)))"

fun processBodyNodes ::
  "(string \<Rightarrow> string \<Rightarrow> bool) \<Rightarrow> BuildParams \<Rightarrow> string \<Rightarrow> (string \<rightharpoonup> nat) \<Rightarrow> BuildState
     \<Rightarrow> NodeDef list \<Rightarrow> error + (BuildState \<times> NodeDef list)" where
  "processBodyNodes matches params functionNodeName outputArgNames st [] = Inr (st, [])"
| "processBodyNodes matches params functionNodeName outputArgNames st (rawNode # rest) =
     (case processBodyNode matches params functionNodeName outputArgNames st rawNode of
        Inl e \<Rightarrow> Inl e
      | Inr (st1, rawNode') \<Rightarrow>
          (case processBodyNodes matches params functionNodeName outputArgNames st1 rest of
             Inl e \<Rightarrow> Inl e
           | Inr (st2, rest') \<Rightarrow> Inr (st2, rawNode' # rest')))"

text \<open>\<^verbatim>\<open>processFunction\<close>, with the function definition as the call leaves it.\<close>

definition processFunction ::
  "(string \<Rightarrow> string \<Rightarrow> bool) \<Rightarrow> BuildParams \<Rightarrow> BuildState \<Rightarrow> FunctionDef
     \<Rightarrow> error + (BuildState \<times> FunctionDef)" where
  "processFunction matches params st func =
     (let functionNodeName = FUNCTION_LIBRARY_NODE_PREFIX @ sig_name (fd_signature func)
      in case processRawNode matches params st
                \<lparr>nd_name = functionNodeName, nd_op = '''', nd_device = '''',
                 nd_attr = Some [], nd_input = Inputs []\<rparr> of
           Inl e \<Rightarrow> Inl e
         | Inr (st1, a, r) \<Rightarrow>
             (case processInputs matches params functionNodeName (st1, 0)
                     (argsOf (sig_input_arg (fd_signature func))) of
                Inl e \<Rightarrow> Inl e
              | Inr (st2, i) \<Rightarrow>
                  (let outputArgNames =
                         fst (fold (processOutput functionNodeName)
                                (argsOf (sig_output_arg (fd_signature func))) (Map.empty, 0))
                   in case processBodyNodes matches params functionNodeName outputArgNames st2
                             (fd_node_def func) of
                        Inl e \<Rightarrow> Inl e
                      | Inr (st3, body') \<Rightarrow> Inr (st3, func\<lparr>fd_node_def := body'\<rparr>))))"

fun processFunctions ::
  "(string \<Rightarrow> string \<Rightarrow> bool) \<Rightarrow> BuildParams \<Rightarrow> BuildState \<Rightarrow> FunctionDef list
     \<Rightarrow> error + (BuildState \<times> FunctionDef list)" where
  "processFunctions matches params st [] = Inr (st, [])"
| "processFunctions matches params st (func # rest) =
     (case processFunction matches params st func of
        Inl e \<Rightarrow> Inl e
      | Inr (st1, func') \<Rightarrow>
          (case processFunctions matches params st1 rest of
             Inl e \<Rightarrow> Inl e
           | Inr (st2, rest') \<Rightarrow> Inr (st2, func' # rest')))"

text \<open>
  The first task of \<^verbatim>\<open>build\<close>: the state after all raw nodes and all library functions,
  and the graph description as the task leaves it.
\<close>

definition normalizeNames ::
  "(string \<Rightarrow> string \<Rightarrow> bool) \<Rightarrow> BuildParams \<Rightarrow> GraphDef \<Rightarrow> error + (BuildState \<times> GraphDef)" where
  "normalizeNames matches params graphDef =
     (case processRawNodes matches params initialState (gd_node graphDef) of
        Inl e \<Rightarrow> Inl e
      | Inr (st1, rawNodes') \<Rightarrow>
          (case gd_library graphDef of
             None \<Rightarrow> Inr (st1, graphDef\<lparr>gd_node := rawNodes'\<rparr>)
           | Some funcs \<Rightarrow>
               (case processFunctions matches params st1 funcs of
                  Inl e \<Rightarrow> Inl e
                | Inr (st2, funcs') \<Rightarrow>
                    Inr (st2, graphDef\<lparr>gd_node := rawNodes', gd_library := Some funcs'\<rparr>))))"

subsection \<open>Edge materializer\<close>

text \<open>\<^verbatim>\<open>normalizedNameDict[name] || name\<close>.\<close>

definition renamed :: "(string \<rightharpoonup> string) \<Rightarrow> string \<Rightarrow> string" where
  "renamed normalizedNameDict nm =
     (case normalizedNameDict nm of
        None \<Rightarrow> nm
      | Some nm' \<Rightarrow> if nm' = [] then nm else nm')"

text \<open>The decimal digits of a number, as string concatenation writes them.\<close>

fun numberToString :: "nat \<Rightarrow> string" where
  "numberToString n =
     (if n < 10 then [''0123456789'' ! n]
      else numberToString (n div 10) @ [''0123456789'' ! (n mod 10)])"

definition addEdgeToGraph ::
  "SlimGraph \<Rightarrow> string \<Rightarrow> OpNode \<Rightarrow> NormalizedInput \<Rightarrow> BuildParams \<Rightarrow> nat \<Rightarrow> SlimGraph" where
  "addEdgeToGraph graph inputName outputNode input params index =
     (if inputName = n_name outputNode then graph
      else graph\<lparr>edges := edges graph @
             [\<lparr>edge_v = inputName, edge_w = n_name outputNode,
               edge_outputTensorKey = ni_outputTensorKey input,
               edge_isControlDependency = ni_isControlDependency input,
               isReferenceEdge =
                 (refEdges params (n_op outputNode @ '' '' @ numberToString index) = Some True)\<rparr>]\<rparr>)"

text \<open>
  The first loop of the second task, for the node object \<open>a\<close>: the node is entered in
  the node dictionary under its new name, gets its out-embeddings, whose names are
  normalized, and is renamed.
\<close>

definition renameNode :: "(string \<rightharpoonup> string) \<Rightarrow> nat \<Rightarrow> OpNode list \<Rightarrow> OpNode list" where
  "renameNode normalizedNameDict b h =
     h[b := (h ! b)\<lparr>n_name := renamed normalizedNameDict (n_name (h ! b))\<rparr>]"

definition addNode ::
  "(string \<rightharpoonup> string) \<Rightarrow> (string \<rightharpoonup> nat list) \<Rightarrow> nat \<Rightarrow> SlimGraph \<times> OpNode list
     \<Rightarrow> SlimGraph \<times> OpNode list" where
  "addNode normalizedNameDict outEmbs a gh =
     (case gh of (graph, h) \<Rightarrow>
        (let normalizedName = renamed normalizedNameDict (n_name (h ! a));
             graph1 = graph\<lparr>nodes := AList.update normalizedName a (nodes graph)\<rparr>;
             h1 = (case outEmbs (n_name (h ! a)) of
                     None \<Rightarrow> h
                   | Some embs \<Rightarrow>
                       fold (renameNode normalizedNameDict) embs
                         (h[a := (h ! a)\<lparr>n_outEmbeddings := embs\<rparr>]))
         in (graph1, h1[a := (h1 ! a)\<lparr>n_name := normalizedName\<rparr>])))"

text \<open>
  The second loop, for the input at position \<open>i\<close> of the node object \<open>a\<close>: an
  in-embedding is added to the in-embeddings of the node and its inputs become edges
  into the node; the inputs of an out-embedding become edges into the node that carry
  the slot and the control flag of the input of the node; any other input is an edge.
\<close>

definition addInput ::
  "(string \<rightharpoonup> string) \<Rightarrow> BuildState \<Rightarrow> BuildParams \<Rightarrow> nat \<Rightarrow> nat \<times> NormalizedInput
     \<Rightarrow> SlimGraph \<times> OpNode list \<Rightarrow> SlimGraph \<times> OpNode list" where
  "addInput normalizedNameDict st params a iinput gh =
     (case gh of (graph, h) \<Rightarrow>
      (case iinput of (i, input) \<Rightarrow>
        (case map_of (inEmbedding st) (ni_name input) of
           Some b \<Rightarrow>
             (let h1 = h[a := (h ! a)\<lparr>n_inEmbeddings := n_inEmbeddings (h ! a) @ [b]\<rparr>]
              in (fold (\<lambda>embedInput g.
                          addEdgeToGraph g (renamed normalizedNameDict (ni_name embedInput))
                            (h1 ! a) embedInput params i)
                    (n_inputs (h1 ! b)) graph,
                  h1))
         | None \<Rightarrow>
             (case outEmbedding st (ni_name input) of
                Some b \<Rightarrow>
                  (fold (\<lambda>embedInput g.
                           addEdgeToGraph g (renamed normalizedNameDict (ni_name embedInput))
                             (h ! a) input params i)
                     (n_inputs (h ! b)) graph,
                   h)
              | None \<Rightarrow>
                  (addEdgeToGraph graph (renamed normalizedNameDict (ni_name input))
                     (h ! a) input params i,
                   h)))))"

definition addInputs ::
  "(string \<rightharpoonup> string) \<Rightarrow> BuildState \<Rightarrow> BuildParams \<Rightarrow> nat
     \<Rightarrow> SlimGraph \<times> OpNode list \<Rightarrow> SlimGraph \<times> OpNode list" where
  "addInputs normalizedNameDict st params a gh =
     fold (addInput normalizedNameDict st params a)
       (enumerate 0 (n_inputs (snd gh ! a))) gh"

text \<open>
  The second task of \<^verbatim>\<open>build\<close>: the three loops, the last of which normalizes the names
  of the in-embeddings.
\<close>

definition buildGraph :: "BuildParams \<Rightarrow> BuildState \<Rightarrow> SlimGraph \<times> OpNode list" where
  "buildGraph params st =
     (let normalizedNameDict = mapStrictHierarchy (nodeNames st) (embeddingNodeNames st);
          gh1 = fold (addNode normalizedNameDict (outEmbeddings st)) (opNodes st)
                  (\<lparr>nodes = [], edges = []\<rparr>, heap st);
          gh2 = fold (addInputs normalizedNameDict st params) (opNodes st) gh1
      in (fst gh2, fold (renameNode normalizedNameDict) (map snd (inEmbedding st)) (snd gh2)))"

text \<open>
  \<^verbatim>\<open>build\<close>: the graph, the store that holds its node objects, and the graph description
  as the call leaves it (the attribute lists and the function bodies are changed in
  place).
\<close>

definition build ::
  "(string \<Rightarrow> string \<Rightarrow> bool) \<Rightarrow> GraphDef \<Rightarrow> BuildParams
     \<Rightarrow> error + (SlimGraph \<times> OpNode list \<times> GraphDef)" where
  "build matches graphDef params =
     (case normalizeNames matches params graphDef of
        Inl e \<Rightarrow> Inl e
      | Inr (st, graphDef') \<Rightarrow>
          (case buildGraph params st of (graph, h) \<Rightarrow> Inr (graph, h, graphDef')))"

subsection \<open>Running the builder twice, and descriptions that a run leaves alone\<close>

text \<open>
  \<open>buildTwice\<close> runs \<^verbatim>\<open>build\<close> on a graph description and then again on the same
  description, as the first run left it; the result is the graph and the store of each
  run.
\<close>

definition buildTwice ::
  "(string \<Rightarrow> string \<Rightarrow> bool) \<Rightarrow> GraphDef \<Rightarrow> BuildParams
     \<Rightarrow> error + ((SlimGraph \<times> OpNode list) \<times> (SlimGraph \<times> OpNode list))" where
  "buildTwice matches graphDef params =
     (case build matches graphDef params of
        Inl e \<Rightarrow> Inl e
      | Inr (graph1, h1, graphDef1) \<Rightarrow>
          (case build matches graphDef1 params of
             Inl e \<Rightarrow> Inl e
           | Inr (graph2, h2, graphDef2) \<Rightarrow> Inr ((graph1, h1), (graph2, h2))))"

text \<open>
  A raw node without an output shapes attribute, and a description whose raw nodes are
  all such and whose library functions have no body nodes.
\<close>

definition keepsAttrs :: "NodeDef \<Rightarrow> bool" where
  "keepsAttrs rawNode =
     (case nd_attr rawNode of
        None \<Rightarrow> True
      | Some as \<Rightarrow> list_all (\<lambda>a. attr_key a \<noteq> OUTPUT_SHAPES_KEY) as)"

definition untouchedByBuild :: "GraphDef \<Rightarrow> bool" where
  "untouchedByBuild graphDef =
     (list_all keepsAttrs (gd_node graphDef) \<and>
      (case gd_library graphDef of
         None \<Rightarrow> True
       | Some funcs \<Rightarrow> list_all (\<lambda>func. fd_node_def func = []) funcs))"

definition noSelfLoop :: "SlimGraph \<Rightarrow> bool" where
  "noSelfLoop graph = list_all (\<lambda>e. edge_v e \<noteq> edge_w e) (edges graph)"

subsection \<open>Descriptions without inherited names\<close>




subsection \<open>Small graph descriptions\<close>

text \<open>
  A pattern without special characters matches the strings that contain it;
  \<open>literalMatch\<close> is the matcher for such patterns.
\<close>

fun literalMatch :: "string \<Rightarrow> string \<Rightarrow> bool" where
  "literalMatch pat [] = (pat = [])"
| "literalMatch pat (c # cs) = (prefix pat (c # cs) \<or> literalMatch pat cs)"

definition plainNode :: "string \<Rightarrow> string \<Rightarrow> string list \<Rightarrow> NodeDef" where
  "plainNode nm opType ins =
     \<lparr>nd_name = nm, nd_op = opType, nd_device = '''', nd_attr = None, nd_input = Inputs ins\<rparr>"

definition exampleParams :: BuildParams where
  "exampleParams =
     \<lparr>enableEmbedding = True, inEmbeddingTypes = [''Const''],
      outEmbeddingTypes = [''Summary''], refEdges = [''Assign 0'' \<mapsto> True]\<rparr>"

text \<open>
  The summary \<open>S\<close> reads slot 1 of the main node \<open>M\<close>; the main node \<open>N\<close> has a control
  dependency on \<open>S\<close> and reads the constant \<open>C\<close>, which has a control dependency on \<open>M\<close>;
  the main node \<open>M/X\<close> reads \<open>N\<close> and itself.
\<close>

definition exampleGraphDef :: GraphDef where
  "exampleGraphDef =
     \<lparr>gd_node =
        [plainNode ''M'' ''Add'' [],
         plainNode ''S'' ''ScalarSummary'' [''M:1''],
         plainNode ''N'' ''Assign'' [''^S'', ''C''],
         plainNode ''C'' ''Const'' [''^M''],
         plainNode ''M/X'' ''Add'' [''N'', ''M/X'']],
      gd_library = None\<rparr>"


text \<open>One node \<open>X\<close> with an output shapes attribute: one output of shape \<open>[3]\<close>.\<close>

definition shapesGraphDef :: GraphDef where
  "shapesGraphDef =
     \<lparr>gd_node =
        [\<lparr>nd_name = ''X'', nd_op = ''Add'', nd_device = '''',
          nd_attr = Some
            [\<lparr>attr_key = ''_output_shapes'',
              attr_value =
                \<lparr>av_list = Some \<lparr>lv_shape = Some
                   [\<lparr>sh_unknown_rank = False, sh_dim = Some [\<lparr>dim_size = Some 3\<rparr>]\<rparr>]\<rparr>,
                 av_s = None, av_type = None\<rparr>\<rparr>],
          nd_input = NoInput\<rparr>],
      gd_library = None\<rparr>"

subsection \<open>The kind of a raw node\<close>

text \<open>
  The branch that \<^verbatim>\<open>processRawNode\<close> takes for a raw node: the in-embedding predicate is
  tried first, then the out-embedding predicate.
\<close>

datatype NodeKind = IsMain | IsInEmbedding | IsOutEmbedding

definition rawKind :: "(string \<Rightarrow> string \<Rightarrow> bool) \<Rightarrow> BuildParams \<Rightarrow> NodeDef \<Rightarrow> NodeKind" where
  "rawKind matches params rawNode =
     (if list_ex (\<lambda>t. matches t (nd_op rawNode)) (inEmbeddingTypes params) then IsInEmbedding
      else if list_ex (\<lambda>t. matches t (nd_op rawNode)) (outEmbeddingTypes params)
      then IsOutEmbedding
      else IsMain)"

text \<open>
  The state of the first task after the raw nodes \<open>rs\<close>, when there are no library
  functions: the node object of the raw node at position \<open>i\<close> is the object \<open>i\<close>, and
  the tables hold the nodes by kind. This relation is what the loop over the raw nodes
  maintains; it is used to reason about the loop and is not part of the program.
\<close>

definition classified ::
  "(string \<Rightarrow> string \<Rightarrow> bool) \<Rightarrow> BuildParams \<Rightarrow> NodeDef list \<Rightarrow> BuildState \<Rightarrow> bool" where
  "classified matches params rs st =
     (length (heap st) = length rs \<and>
      (\<forall>i<length rs.
         n_name (heap st ! i) = nd_name (rs ! i) \<and> n_op (heap st ! i) = nd_op (rs ! i) \<and>
         n_inputs (heap st ! i) = normalizeInputs (rawInputList (nd_input (rs ! i))) \<and>
         n_outEmbeddings (heap st ! i) = []) \<and>
      opNodes st = filter (\<lambda>i. rawKind matches params (rs ! i) = IsMain) [0..<length rs] \<and>
      nodeNames st = map (\<lambda>i. nd_name (rs ! i)) (opNodes st) \<and>
      (\<forall>k a. (k, a) \<in> set (inEmbedding st) \<longrightarrow>
         a < length rs \<and> rawKind matches params (rs ! a) = IsInEmbedding \<and> nd_name (rs ! a) = k) \<and>
      (\<forall>k a. outEmbedding st k = Some a \<longrightarrow>
         a < length rs \<and> rawKind matches params (rs ! a) = IsOutEmbedding \<and> nd_name (rs ! a) = k) \<and>
      (\<forall>a<length rs. rawKind matches params (rs ! a) = IsOutEmbedding \<longrightarrow>
         outEmbedding st (nd_name (rs ! a)) \<noteq> None) \<and>
      (\<forall>k l a. outEmbeddings st k = Some l \<longrightarrow> a \<in> set l \<longrightarrow>
         a < length rs \<and> rawKind matches params (rs ! a) = IsOutEmbedding) \<and>
      (\<forall>a<length rs. rawKind matches params (rs ! a) = IsOutEmbedding \<longrightarrow>
         (\<forall>e\<in>set (normalizeInputs (rawInputList (nd_input (rs ! a)))).
            \<exists>l. outEmbeddings st (ni_name e) = Some l \<and> a \<in> set l)))"





section \<open>Stats merger\<close>

text \<open>
  The execution trace (\<^verbatim>\<open>tf_graph_proto.StepStats\<close>). Numbers are integers; an output of
  a node is given by the sizes of the dimensions of its tensor description.
\<close>

record AllocatorMemoryUsed =
  total_bytes :: "int option"

record NodeOutput =
  out_dims :: "int list"

record NodeExecStats =
  ns_node_name :: string
  ns_memory :: "AllocatorMemoryUsed list option"
  ns_output :: "NodeOutput list option"
  ns_all_start_micros :: int
  ns_all_end_rel_micros :: "int option"

record DeviceStepStats =
  dss_device :: string
  dss_node_stats :: "NodeExecStats list"

record StepStats =
  dev_stats :: "DeviceStepStats list"

text \<open>The first loop of \<^verbatim>\<open>joinStatsInfoWithGraph\<close>: \<^verbatim>\<open>node.stats = null\<close> for each node.\<close>

definition resetStats :: "SlimGraph \<Rightarrow> OpNode list \<Rightarrow> OpNode list" where
  "resetStats graph h =
     fold (\<lambda>entry h'. h'[snd entry := (h' ! snd entry)\<lparr>n_stats := None\<rparr>]) (nodes graph) h"

text \<open>
  The name under which a trace entry is looked up: its own name when
  \<^verbatim>\<open>nodeStats.node_name in graph.nodes\<close>, that is, when the name is a key of the node
  dictionary or a name that the dictionary inherits; its strict name otherwise.
\<close>

definition lookupName :: "SlimGraph \<Rightarrow> NodeExecStats \<Rightarrow> string" where
  "lookupName graph nodeStats =
     (if ns_node_name nodeStats \<in> fst ` set (nodes graph) \<or>
         inheritedName (ns_node_name nodeStats)
      then ns_node_name nodeStats
      else getStrictName (ns_node_name nodeStats))"

text \<open>The loop over \<^verbatim>\<open>nodeStats.memory\<close>: only positive allocations are added.\<close>

definition addAlloc :: "AllocatorMemoryUsed \<Rightarrow> int \<Rightarrow> int" where
  "addAlloc alloc bytes =
     (case total_bytes alloc of
        None \<Rightarrow> bytes
      | Some b \<Rightarrow> if b \<noteq> 0 then (if b > 0 then bytes + b else bytes) else bytes)"

definition sumBytes :: "AllocatorMemoryUsed list option \<Rightarrow> int" where
  "sumBytes mem = (case mem of None \<Rightarrow> 0 | Some allocs \<Rightarrow> fold addAlloc allocs 0)"

text \<open>
  The body of the loop over the node stats of one device. The state is the graph and the
  store; an entry that matches no node returns early and leaves both as they are. So
  does an entry whose name the node dictionary only inherits: there the code goes on
  and writes the device and the stats to the inherited object, which is no node of the
  graph and no object of the store.
\<close>

definition joinNodeStats ::
  "string \<Rightarrow> NodeExecStats \<Rightarrow> SlimGraph \<times> OpNode list \<Rightarrow> SlimGraph \<times> OpNode list" where
  "joinNodeStats device nodeStats gh =
     (case gh of (graph, h) \<Rightarrow>
        (case map_of (nodes graph) (lookupName graph nodeStats) of
           None \<Rightarrow> (graph, h)
         | Some a \<Rightarrow>
             (let bytes = sumBytes (ns_memory nodeStats);
                  sz = map_option (map out_dims) (ns_output nodeStats);
                  node1 = (h ! a)\<lparr>n_device := device\<rparr>;
                  stats0 = (case n_stats node1 of None \<Rightarrow> newNodeStats sz | Some st \<Rightarrow> st);
                  stats1 = addBytesAllocation stats0 bytes;
                  stats2 =
                    (case ns_all_end_rel_micros nodeStats of
                       None \<Rightarrow> stats1
                     | Some rel \<Rightarrow>
                         if rel \<noteq> 0 \<and> rel > 0
                         then addExecutionTime stats1 (ns_all_start_micros nodeStats)
                                (ns_all_start_micros nodeStats + rel)
                         else stats1)
              in (graph, h[a := node1\<lparr>n_stats := Some stats2\<rparr>]))))"

text \<open>
  \<^verbatim>\<open>devicesForStats && !devicesForStats[devStats.device]\<close> skips a device. The map
  holds the properties the object has of its own; under a device name that it only
  inherits, the object reads as a function, which counts as true.
\<close>

definition deviceSelected :: "(string \<rightharpoonup> bool) option \<Rightarrow> string \<Rightarrow> bool" where
  "deviceSelected devicesForStats device =
     (case devicesForStats of
        None \<Rightarrow> True
      | Some m \<Rightarrow> (case m device of Some b \<Rightarrow> b | None \<Rightarrow> inheritedName device))"

definition joinDeviceStats ::
  "(string \<rightharpoonup> bool) option \<Rightarrow> DeviceStepStats \<Rightarrow> SlimGraph \<times> OpNode list
     \<Rightarrow> SlimGraph \<times> OpNode list" where
  "joinDeviceStats devicesForStats devStats gh =
     (if \<not> deviceSelected devicesForStats (dss_device devStats) then gh
      else fold (joinNodeStats (dss_device devStats)) (dss_node_stats devStats) gh)"

definition joinStatsInfoWithGraph ::
  "SlimGraph \<Rightarrow> OpNode list \<Rightarrow> StepStats \<Rightarrow> (string \<rightharpoonup> bool) option
     \<Rightarrow> SlimGraph \<times> OpNode list" where
  "joinStatsInfoWithGraph graph h stats devicesForStats =
     fold (joinDeviceStats devicesForStats) (dev_stats stats) (graph, resetStats graph h)"

text \<open>
  The node object a trace entry is merged into, if any, and the byte count a node shows:
  zero while it has no stats.
\<close>

definition matchedNode :: "SlimGraph \<Rightarrow> NodeExecStats \<Rightarrow> nat option" where
  "matchedNode graph nodeStats = map_of (nodes graph) (lookupName graph nodeStats)"

definition bytesOf :: "OpNode \<Rightarrow> int" where
  "bytesOf node = (case n_stats node of None \<Rightarrow> 0 | Some st \<Rightarrow> totalBytes st)"

subsection \<open>A small graph with stats\<close>

text \<open>
  Two nodes \<open>X\<close> and \<open>Y\<close> that already carry stats, as a previous merge leaves them, and
  three trace entries: one for \<open>X\<close> with a negative allocation, one for a name that is
  not in the graph, and one for \<open>X\<close> with a positive allocation.
\<close>

definition exampleNode :: "string \<Rightarrow> OpNode" where
  "exampleNode nm =
     \<lparr>n_name = nm, n_op = ''Add'', n_device = '''',
      n_stats = Some \<lparr>totalBytes = 7, executionTime = None, outputSize = None\<rparr>,
      n_attr = None, n_inputs = [], n_inEmbeddings = [], n_outEmbeddings = [],
      n_outputShapes = None, n_xlaCluster = None, n_compatible = False,
      n_functionInputIndex = None, n_functionOutputIndex = None\<rparr>"

definition exampleGraph :: SlimGraph where
  "exampleGraph = \<lparr>nodes = [(''X'', 0), (''Y'', 1)], edges = []\<rparr>"

definition exampleStore :: "OpNode list" where
  "exampleStore = [exampleNode ''X'', exampleNode ''Y'']"

definition traceEntry :: "string \<Rightarrow> int \<Rightarrow> NodeExecStats" where
  "traceEntry nm b =
     \<lparr>ns_node_name = nm, ns_memory = Some [\<lparr>total_bytes = Some b\<rparr>], ns_output = None,
      ns_all_start_micros = 0, ns_all_end_rel_micros = None\<rparr>"

definition exampleTrace :: StepStats where
  "exampleTrace = \<lparr>dev_stats = [\<lparr>dss_device = ''cpu'', dss_node_stats = [traceEntry ''X'' 3]\<rparr>]\<rparr>"

section \<open>Properties of the name functions\<close>

lemma getStrictName_a_b: "getStrictName ''a/b'' = ''a/b/(b)''"
  by (simp add: getStrictName_def NAMESPACE_DELIM_def)

lemma getStrictName_twice_a_b: "getStrictName (getStrictName ''a/b'') = ''a/b/(b)/((b))''"
  by (simp add: getStrictName_def NAMESPACE_DELIM_def)

lemma length_getStrictName: "length nm < length (getStrictName nm)"
  by (simp add: getStrictName_def)

text \<open>
  Claim C3, as the specification states it: \<open>getStrictName\<close> of \<open>a/b\<close> is \<open>a/b/(b)\<close>,
  and applying it once more gives the string \<open>a/b/(b)/(( b))\<close>, with a blank after the
  two parentheses. The code gives no blank there, so the statement as written is false.
\<close>

theorem C3_spec_string_counterexample:
  "\<not> (getStrictName ''a/b'' = ''a/b/(b)'' \<and>
      getStrictName (getStrictName ''a/b'') = ''a/b/(b)/(( b))'' \<and>
      getStrictName (getStrictName ''a/b'') \<noteq> ''a/b/(b)'')"
  by (simp add: getStrictName_def NAMESPACE_DELIM_def)

text \<open>
  Claim C3, amended: \<open>getStrictName\<close> of \<open>a/b\<close> is \<open>a/b/(b)\<close>; applying it a second
  time gives \<open>a/b/(b)/((b))\<close>, which differs from \<open>a/b/(b)\<close>, so the function is not
  idempotent.
\<close>

theorem C3_getStrictName_not_idempotent:
  "getStrictName ''a/b'' = ''a/b/(b)'' \<and>
   getStrictName (getStrictName ''a/b'') = ''a/b/(b)/((b))'' \<and>
   getStrictName (getStrictName ''a/b'') \<noteq> getStrictName ''a/b''"
  by (simp add: getStrictName_def NAMESPACE_DELIM_def)

section \<open>Properties of the input normalizer\<close>

text \<open>
  Claim C4: for the raw inputs \<open>^Y\<close>, \<open>Z:2\<close>, \<open>Z:2\<close> the normalizer returns two
  entries, \<open>Y\<close> with slot \<open>0\<close> as a control dependency and then \<open>Z\<close> with slot \<open>2\<close>
  as a data input; the second \<open>Z:2\<close> gives no entry.
\<close>

theorem C4_normalizeInputs_example:
  "normalizeInputs (Some [''^Y'', ''Z:2'', ''Z:2'']) =
     [\<lparr>ni_name = ''Y'', ni_outputTensorKey = ''0'', ni_isControlDependency = True\<rparr>,
      \<lparr>ni_name = ''Z'', ni_outputTensorKey = ''2'', ni_isControlDependency = False\<rparr>]"
  by (simp add: normalizeInputs_def parseInput_def INPUT_NAME_PART_MATCHER_def slotPart_def
      notColon_def isDigit_def Let_def)

lemma collapseRuns_hd: "\<exists>ys. collapseRuns (x # xs) = x # ys"
  by (induction xs) auto

lemma normalizeLoop_collapse:
  "normalizeLoop (Some (ni_name x)) (acc @ [x]) raws = acc @ collapseRuns (x # map parseInput raws)"
proof (induction raws arbitrary: acc x)
  case Nil then show ?case by simp
next
  case (Cons r rs)
  show ?case
  proof (cases "ni_name (parseInput r) = ni_name x")
    case True
    have "normalizeLoop (Some (ni_name x)) (acc @ [x]) (r # rs) =
          normalizeLoop (Some (ni_name x)) (acc @ [x]) rs"
      using True by (simp add: Let_def)
    then show ?thesis using Cons.IH [of x acc] True by simp
  next
    case False
    have "normalizeLoop (Some (ni_name x)) (acc @ [x]) (r # rs) =
          normalizeLoop (Some (ni_name (parseInput r))) ((acc @ [x]) @ [parseInput r]) rs"
      using False by (auto simp: Let_def)
    then show ?thesis using Cons.IH [of "parseInput r" "acc @ [x]"] False by auto
  qed
qed

lemma normalizeLoop_None:
  "normalizeLoop None [] raws = collapseRuns (map parseInput raws)"
proof (cases raws)
  case Nil then show ?thesis by simp
next
  case (Cons r rs)
  then show ?thesis using normalizeLoop_collapse [of "parseInput r" "[]" rs] by (simp add: Let_def)
qed

lemma distinct_adj_collapseRuns: "distinct_adj (map ni_name (collapseRuns xs))"
proof (induction xs rule: collapseRuns.induct)
  case (3 x y zs)
  show ?case
  proof (cases "ni_name x = ni_name y")
    case True with 3 show ?thesis by simp
  next
    case False
    obtain ys where "collapseRuns (y # zs) = y # ys"
      using collapseRuns_hd by blast
    with 3 False show ?thesis by (simp add: distinct_adj_Cons)
  qed
qed auto

text \<open>
  Claim C5: for every raw input list, no two adjacent entries of the normalized list
  have the same source name; the list is the parsed inputs with each run of consecutive
  equal names collapsed to its first entry, whose slot and control flag are kept.
\<close>

theorem C5_normalizeInputs_no_adjacent_duplicates:
  "distinct_adj (map ni_name (normalizeInputs inputs)) \<and>
   normalizeInputs inputs =
     collapseRuns (map parseInput (case inputs of None \<Rightarrow> [] | Some xs \<Rightarrow> xs))"
  by (simp add: normalizeInputs_def normalizeLoop_None distinct_adj_collapseRuns)

section \<open>Properties of the name disambiguator\<close>

lemma prefix_between:
  fixes a b c :: string
  shows "a \<le> c \<Longrightarrow> c \<le> b \<Longrightarrow> prefix a b \<Longrightarrow> prefix a c"
proof (induction a arbitrary: b c)
  case Nil then show ?case by simp
next
  case (Cons x a)
  then show ?case
    by (cases b; cases c) auto
qed

lemma isChildOf_iff: "isChildOf b a \<longleftrightarrow> (\<exists>r. b = a @ NAMESPACE_DELIM # r)"
proof
  assume "isChildOf b a"
  then obtain t where t: "b = a @ t" and l: "length a < length b" and d: "b ! length a = NAMESPACE_DELIM"
    by (auto simp: isChildOf_def prefix_def)
  from t l obtain c r where "t = c # r" by (cases t) auto
  with t d show "\<exists>r. b = a @ NAMESPACE_DELIM # r" by (auto simp: nth_append)
next
  assume "\<exists>r. b = a @ NAMESPACE_DELIM # r"
  then show "isChildOf b a" by (auto simp: isChildOf_def nth_append)
qed

lemma parentPaths_iff:
  "e \<in> set (parentPaths pre b) \<longleftrightarrow> (\<exists>u r. b = u @ NAMESPACE_DELIM # r \<and> e = pre @ u)"
proof (induction b arbitrary: pre)
  case Nil then show ?case by simp
next
  case (Cons c cs)
  have split: "(\<exists>u r. c # cs = u @ NAMESPACE_DELIM # r \<and> e = pre @ u) \<longleftrightarrow>
    (c = NAMESPACE_DELIM \<and> e = pre) \<or> (\<exists>u r. cs = u @ NAMESPACE_DELIM # r \<and> e = (pre @ [c]) @ u)"
    by (auto simp: Cons_eq_append_conv)
  show ?case unfolding split using Cons.IH [of "pre @ [c]"] by auto
qed

lemma parents_isChildOf: "e \<in> set (butlast (getHierarchicalPath b)) \<longleftrightarrow> isChildOf b e"
  by (simp add: getHierarchicalPath_def parentPaths_iff isChildOf_iff)

lemma hasChildAfter_sound: "hasChildAfter a bs \<Longrightarrow> \<exists>b\<in>set bs. isChildOf b a"
  by (induction bs) (auto simp: isChildOf_def split: if_splits)

lemma hasChildAfter_complete:
  "sorted (a # bs) \<Longrightarrow> b \<in> set bs \<Longrightarrow> isChildOf b a \<Longrightarrow> hasChildAfter a bs"
proof (induction bs)
  case Nil then show ?case by simp
next
  case (Cons c cs)
  have "a \<le> c" "c \<le> b" using Cons.prems by auto
  moreover have "prefix a b" using Cons.prems by (simp add: isChildOf_def)
  ultimately have pc: "prefix a c" by (rule prefix_between)
  show ?case
  proof (cases "length c > length a \<and> c ! length a = NAMESPACE_DELIM")
    case True with pc show ?thesis by simp
  next
    case False
    then have "b \<noteq> c" using Cons.prems by (auto simp: isChildOf_def)
    then have "b \<in> set cs" using Cons.prems by simp
    moreover have "sorted (a # cs)" using Cons.prems by auto
    ultimately have "hasChildAfter a cs" using Cons.IH Cons.prems by blast
    with pc False show ?thesis by auto
  qed
qed

lemma less_append_Cons: "(a::string) < a @ c # r"
  by (induction a) auto

lemma isChildOf_less: "isChildOf b a \<Longrightarrow> a < b"
  by (auto simp: isChildOf_iff less_append_Cons)

lemma strictLoop_snd:
  "snd (strictLoop xs (d, ns)) = ns \<union> {e. \<exists>b\<in>set (butlast xs). isChildOf b e}"
proof (induction xs arbitrary: d ns rule: induct_list012)
  case (3 a b rest)
  have "butlast (a # b # rest) = a # butlast (b # rest)" by simp
  then show ?case
    unfolding strictLoop.simps "3.IH"(2) by (auto simp: parents_isChildOf)
qed auto

lemma strictLoop_fst:
  "sorted xs \<Longrightarrow> fst (strictLoop xs (d, ns)) k =
     (if k \<in> set xs \<and> (\<exists>b\<in>set xs. isChildOf b k) then Some (getStrictName k) else d k)"
proof (induction xs arbitrary: d ns rule: induct_list012)
  case 1 then show ?case by simp
next
  case (2 a) then show ?case by (auto simp: isChildOf_def)
next
  case (3 a b rest)
  have s: "sorted (b # rest)" using "3.prems" by simp
  have notless: "\<not> isChildOf a k'" if "k' \<in> set (b # rest)" for k'
    using that "3.prems" isChildOf_less [of a k'] by (auto simp: not_less)
  have hc: "hasChildAfter a (b # rest) \<longleftrightarrow> (\<exists>c\<in>set (b # rest). isChildOf c a)"
    using hasChildAfter_sound [of a "b # rest"] hasChildAfter_complete [OF "3.prems"] by blast
  have self: "\<not> isChildOf a a" by (simp add: isChildOf_def)
  define d' where "d' = (if hasChildAfter a (b # rest) then d(a \<mapsto> getStrictName a) else d)"
  define ns' where "ns' = ns \<union> set (butlast (getHierarchicalPath a))"
  have step: "strictLoop (a # b # rest) (d, ns) = strictLoop (b # rest) (d', ns')"
    unfolding d'_def ns'_def by (rule strictLoop.simps)
  have ih: "fst (strictLoop (b # rest) (d', ns')) k =
     (if k \<in> set (b # rest) \<and> (\<exists>c\<in>set (b # rest). isChildOf c k) then Some (getStrictName k) else d' k)"
    by (rule "3.IH"(2) [OF s])
  have d'k: "d' k = (if k = a \<and> (\<exists>c\<in>set (b # rest). isChildOf c a) then Some (getStrictName a) else d k)"
    unfolding d'_def hc by auto
  show ?case
  proof (cases "k = a")
    case True
    show ?thesis unfolding step ih d'k using True self by auto
  next
    case False
    show ?thesis unfolding step ih d'k using False notless by auto
  qed
qed

lemma fold_renameEmbedding:
  "fold (renameEmbedding ns) es d k =
     (if k \<in> set es \<and> k \<in> ns then Some (getStrictName k) else d k)"
  by (induction es arbitrary: d) (auto simp: renameEmbedding_def)

lemma mapStrictHierarchy_eq:
  "mapStrictHierarchy names embNames k =
     (if (k \<in> set embNames \<and> (\<exists>b\<in>set (butlast (sort names)). isChildOf b k))
         \<or> (k \<in> set names \<and> (\<exists>b\<in>set names. isChildOf b k))
      then Some (getStrictName k) else None)"
proof -
  obtain d ns where r: "strictLoop (sort names) (Map.empty, {}) = (d, ns)"
    by (cases "strictLoop (sort names) (Map.empty, {})")
  have ns: "ns = {e. \<exists>b\<in>set (butlast (sort names)). isChildOf b e}"
    using strictLoop_snd [of "sort names" Map.empty "{}"] r by simp
  have d: "d k = (if k \<in> set names \<and> (\<exists>b\<in>set names. isChildOf b k)
                  then Some (getStrictName k) else None)"
    using strictLoop_fst [of "sort names" Map.empty "{}" k] r by simp
  show ?thesis
    by (simp add: mapStrictHierarchy_def r fold_renameEmbedding d) (auto simp: ns)
qed


lemma not_child_of_A_B:
  assumes "set names = {''A'', ''A/B''}" and "b \<in> set names"
  shows "\<not> isChildOf b ''A/B''"
proof -
  have "b = ''A'' \<or> b = ''A/B''" using assms by blast
  then show ?thesis by (auto simp: isChildOf_def)
qed

lemma rename_A:
  assumes "set names = {''A'', ''A/B''}" 
  shows "mapStrictHierarchy names embNames ''A'' = Some (getStrictName ''A'')"
proof -
  have child: "isChildOf ''A/B'' ''A''"
    by (simp add: isChildOf_def NAMESPACE_DELIM_def)
  have "''A'' \<in> set names" "''A/B'' \<in> set names" using assms by blast+
  then have "''A'' \<in> set names \<and> (\<exists>b\<in>set names. isChildOf b ''A'')"
    using child by blast
  then show ?thesis unfolding mapStrictHierarchy_eq by (rule if_P [OF disjI2])
qed

lemma keep_A_B:
  assumes "set names = {''A'', ''A/B''}" 
  shows "mapStrictHierarchy names embNames ''A/B'' = None"
proof -
  have none: "\<not> isChildOf b ''A/B''" if "b \<in> set names" for b
    using not_child_of_A_B [OF assms that] .
  have none': "\<not> isChildOf b ''A/B''" if "b \<in> set (butlast (sort names))" for b
    using in_set_butlastD [OF that] none by simp
  have "\<not> ((''A/B'' \<in> set embNames \<and> (\<exists>b\<in>set (butlast (sort names)). isChildOf b ''A/B''))
         \<or> (''A/B'' \<in> set names \<and> (\<exists>b\<in>set names. isChildOf b ''A/B'')))"
    using none none' by blast
  then show ?thesis unfolding mapStrictHierarchy_eq by (rule if_not_P)
qed

text \<open>
  Claim C6: when the set of main node names is \<open>A\<close> and \<open>A/B\<close>, the dictionary maps
  \<open>A\<close> to \<open>A/(A)\<close> and has no entry for \<open>A/B\<close>, whatever the order of the names, their
  repetitions and the embedding names.
\<close>

theorem C6_rename_A_keep_A_B:
  assumes "set names = {''A'', ''A/B''}"
  shows "mapStrictHierarchy names embNames ''A'' = Some ''A/(A)'' \<and>
         mapStrictHierarchy names embNames ''A/B'' = None"
proof -
  have "getStrictName ''A'' = ''A/(A)''"
    by (simp add: getStrictName_def NAMESPACE_DELIM_def)
  then show ?thesis using rename_A [OF assms] keep_A_B [OF assms] by simp
qed

lemma set_A_B_A: "set [''A/B'', ''A''] = {''A'', ''A/B''}"
  by (simp add: insert_commute)

theorem C6_rename_A_keep_A_B_witness:
  "set [''A/B'', ''A''] = {''A'', ''A/B''} \<and>
   mapStrictHierarchy [''A/B'', ''A''] [''A/B''] ''A'' = Some ''A/(A)'' \<and>
   mapStrictHierarchy [''A/B'', ''A''] [''A/B''] ''A/B'' = None"
  by (rule conjI [OF set_A_B_A C6_rename_A_keep_A_B [OF set_A_B_A]])

text \<open>
  Claim C2 says that every embedding name that is a strict path prefix of a main node
  name is renamed. The outer loop of \<open>mapStrictHierarchy\<close> stops before the last name of
  the sorted list, so the parent namespaces of that name never enter the namespace set:
  with the single main node \<open>A/B\<close> the embedding \<open>A\<close> is not renamed, while with the main
  nodes \<open>A/B\<close> and \<open>A/C\<close> it is.
\<close>

theorem C2_last_name_namespaces_missed:
  "isChildOf ''A/B'' ''A'' \<and>
   mapStrictHierarchy [''A/B''] [''A''] ''A'' = None \<and>
   mapStrictHierarchy [''A/B'', ''A/C''] [''A''] ''A'' = Some ''A/(A)''"
  by (simp add: mapStrictHierarchy_def renameEmbedding_def getHierarchicalPath_def
      getStrictName_def isChildOf_def NAMESPACE_DELIM_def)

section \<open>Properties of the stats merger\<close>

lemma nth_update_full:
  "xs[i := x] ! j = (if i = j \<and> i < length xs then x else xs ! j)"
  by (cases "i < length xs") (auto simp: list_update_beyond)

lemma joinNodeStats_fst: "fst (joinNodeStats device e gh) = fst gh"
  by (cases gh) (simp add: joinNodeStats_def Let_def split: option.splits)

lemma joinNodeStats_length: "length (snd (joinNodeStats device e gh)) = length (snd gh)"
  by (cases gh) (simp add: joinNodeStats_def Let_def split: option.splits)

lemma joinNodeStats_unmatched:
  "matchedNode graph e = None \<Longrightarrow> joinNodeStats device e (graph, h) = (graph, h)"
  by (simp add: joinNodeStats_def matchedNode_def)

lemma joinNodeStats_other:
  "matchedNode graph e \<noteq> Some a \<Longrightarrow> snd (joinNodeStats device e (graph, h)) ! a = h ! a"
  by (auto simp: joinNodeStats_def matchedNode_def Let_def split: option.splits)

lemma sumBytes_minus5: "sumBytes (Some [\<lparr>total_bytes = Some (- 5)\<rparr>]) = 0"
  by (simp add: sumBytes_def addAlloc_def)

lemma joinNodeStats_bytes:
  assumes "matchedNode graph e = Some a" "a < length h" "sumBytes (ns_memory e) = 0"
  shows "bytesOf (snd (joinNodeStats device e (graph, h)) ! a) = bytesOf (h ! a)"
  using assms
  by (auto simp: joinNodeStats_def matchedNode_def Let_def bytesOf_def addBytesAllocation_def
      addExecutionTime_def newNodeStats_def split: option.splits)

lemma fold_joinNodeStats_fst: "fst (fold (joinNodeStats device) es gh) = fst gh"
  by (induction es arbitrary: gh) (simp_all add: joinNodeStats_fst)

lemma fold_joinNodeStats_other:
  "\<forall>e\<in>set es. matchedNode (fst gh) e \<noteq> Some a \<Longrightarrow>
   snd (fold (joinNodeStats device) es gh) ! a = snd gh ! a"
proof (induction es arbitrary: gh)
  case Nil then show ?case by simp
next
  case (Cons e es)
  obtain g h where gh: "gh = (g, h)" by (cases gh)
  have "snd (fold (joinNodeStats device) es (joinNodeStats device e gh)) ! a
        = snd (joinNodeStats device e gh) ! a"
    using Cons.prems by (intro Cons.IH) (simp add: joinNodeStats_fst)
  also have "\<dots> = snd gh ! a"
    using Cons.prems joinNodeStats_other [of g e a device h] by (simp add: gh)
  finally show ?case by simp
qed

lemma joinDeviceStats_fst: "fst (joinDeviceStats dfs ds gh) = fst gh"
  by (simp add: joinDeviceStats_def fold_joinNodeStats_fst)

lemma joinDeviceStats_other:
  "(deviceSelected dfs (dss_device ds) \<longrightarrow> (\<forall>e\<in>set (dss_node_stats ds). matchedNode (fst gh) e \<noteq> Some a))
   \<Longrightarrow> snd (joinDeviceStats dfs ds gh) ! a = snd gh ! a"
  by (simp add: joinDeviceStats_def fold_joinNodeStats_other)

lemma fold_joinDeviceStats_fst: "fst (fold (joinDeviceStats dfs) dss gh) = fst gh"
  by (induction dss arbitrary: gh) (simp_all add: joinDeviceStats_fst)

lemma fold_joinDeviceStats_other:
  "\<forall>ds\<in>set dss. deviceSelected dfs (dss_device ds) \<longrightarrow>
       (\<forall>e\<in>set (dss_node_stats ds). matchedNode (fst gh) e \<noteq> Some a) \<Longrightarrow>
   snd (fold (joinDeviceStats dfs) dss gh) ! a = snd gh ! a"
proof (induction dss arbitrary: gh)
  case Nil then show ?case by simp
next
  case (Cons ds dss)
  have "snd (fold (joinDeviceStats dfs) dss (joinDeviceStats dfs ds gh)) ! a
        = snd (joinDeviceStats dfs ds gh) ! a"
    using Cons.prems by (intro Cons.IH) (simp add: joinDeviceStats_fst)
  also have "\<dots> = snd gh ! a"
    using Cons.prems by (intro joinDeviceStats_other) simp
  finally show ?case by simp
qed

lemma resetLoop_length:
  "length (fold (\<lambda>entry h'. h'[snd entry := (h' ! snd entry)\<lparr>n_stats := None\<rparr>]) es h) = length h"
  by (induction es arbitrary: h) simp_all

lemma resetLoop_keeps_None:
  "n_stats (h ! a) = None \<Longrightarrow>
   n_stats (fold (\<lambda>entry h'. h'[snd entry := (h' ! snd entry)\<lparr>n_stats := None\<rparr>]) es h ! a) = None"
proof (induction es arbitrary: h)
  case Nil then show ?case by simp
next
  case (Cons e es)
  show ?case using Cons.prems
    by (simp, intro Cons.IH) (simp add: nth_update_full)
qed

lemma resetLoop_resets:
  "entry \<in> set es \<Longrightarrow> snd entry < length h \<Longrightarrow>
   n_stats (fold (\<lambda>entry h'. h'[snd entry := (h' ! snd entry)\<lparr>n_stats := None\<rparr>]) es h ! snd entry) = None"
proof (induction es arbitrary: h)
  case Nil then show ?case by simp
next
  case (Cons e es)
  show ?case
  proof (cases "entry = e")
    case True
    then show ?thesis using Cons.prems by (simp add: resetLoop_keeps_None)
  next
    case False
    then show ?thesis using Cons.prems Cons.IH by simp
  qed
qed

lemma resetStats_resets:
  "(nm, a) \<in> set (nodes graph) \<Longrightarrow> a < length h \<Longrightarrow> n_stats (resetStats graph h ! a) = None"
  using resetLoop_resets [of "(nm, a)" "nodes graph" h] by (simp add: resetStats_def)

lemma resetLoop_nth:
  "j < length h \<Longrightarrow>
   fold (\<lambda>entry h'. h'[snd entry := (h' ! snd entry)\<lparr>n_stats := None\<rparr>]) es h ! j =
     (if j \<in> snd ` set es then (h ! j)\<lparr>n_stats := None\<rparr> else h ! j)"
proof (induction es arbitrary: h)
  case Nil then show ?case by simp
next
  case (Cons e es)
  let ?h1 = "h[snd e := (h ! snd e)\<lparr>n_stats := None\<rparr>]"
  have "j < length ?h1" using Cons.prems by simp
  from Cons.IH [OF this] show ?case using Cons.prems
    by (auto simp: nth_update_full)
qed

lemma resetStats_idem: "resetStats graph (resetStats graph h) = resetStats graph h"
  by (rule nth_equalityI) (simp_all add: resetStats_def resetLoop_length resetLoop_nth)

text \<open>
  Names that a dictionary inherits. A trace entry named \<^verbatim>\<open>toString\<close> is looked up under
  that name, not under its strict name, and matches no node. With an empty selection
  of devices, a device named \<^verbatim>\<open>constructor\<close> is processed all the same, and its entry
  for \<open>Y\<close> gives \<open>Y\<close> new stats; a device the selection maps to false is skipped.
\<close>

lemma lookupName_inherited:
  "lookupName \<lparr>nodes = [(''toString/(toString)'', 0)], edges = []\<rparr> (traceEntry ''toString'' 3)
     = ''toString'' \<and>
   matchedNode \<lparr>nodes = [(''toString/(toString)'', 0)], edges = []\<rparr> (traceEntry ''toString'' 3)
     = None"
  by (simp add: lookupName_def matchedNode_def traceEntry_def inheritedName_def
      objectPrototypeProperties_def)

lemma deviceSelected_inherited:
  "deviceSelected (Some Map.empty) ''constructor'' \<and>
   \<not> deviceSelected (Some Map.empty) ''cpu'' \<and>
   \<not> deviceSelected (Some [''constructor'' \<mapsto> False]) ''constructor'' \<and>
   n_stats (snd (joinStatsInfoWithGraph exampleGraph exampleStore
                   \<lparr>dev_stats = [\<lparr>dss_device = ''constructor'',
                                  dss_node_stats = [traceEntry ''Y'' 3]\<rparr>]\<rparr>
                   (Some Map.empty)) ! 1)
     = Some \<lparr>totalBytes = 3, executionTime = None, outputSize = None\<rparr>"
  by (simp add: deviceSelected_def inheritedName_def objectPrototypeProperties_def
      joinStatsInfoWithGraph_def joinDeviceStats_def joinNodeStats_def resetStats_def
      exampleGraph_def exampleStore_def exampleNode_def traceEntry_def lookupName_def
      sumBytes_def addAlloc_def newNodeStats_def addBytesAllocation_def Let_def)

text \<open>
  Claim C8: a trace entry whose memory allocation reports \<open>total_bytes = -5\<close> leaves the
  byte count of the node it matches as it was, and a trace entry whose name matches no
  node, neither as it is nor as its strict name, changes nothing: the node dictionary
  and the nodes stay as they were. The node dictionary is the same after the whole
  merge.
\<close>

theorem C8_negative_bytes_and_unknown_node:
  "(matchedNode graph e = Some a \<and> ns_memory e = Some [\<lparr>total_bytes = Some (- 5)\<rparr>] \<longrightarrow>
      bytesOf (snd (joinNodeStats device e (graph, h)) ! a) = bytesOf (h ! a)) \<and>
   (matchedNode graph e' = None \<longrightarrow> joinNodeStats device e' (graph, h) = (graph, h)) \<and>
   fst (joinStatsInfoWithGraph graph h stats devicesForStats) = graph"
proof (intro conjI impI)
  assume a: "matchedNode graph e = Some a \<and> ns_memory e = Some [\<lparr>total_bytes = Some (- 5)\<rparr>]"
  then have z: "sumBytes (ns_memory e) = 0" by (simp add: sumBytes_minus5)
  show "bytesOf (snd (joinNodeStats device e (graph, h)) ! a) = bytesOf (h ! a)"
  proof (cases "a < length h")
    case True
    then show ?thesis using a z by (simp add: joinNodeStats_bytes)
  next
    case False
    then show ?thesis using a
      by (simp add: joinNodeStats_def matchedNode_def Let_def list_update_beyond)
  qed
next
  assume "matchedNode graph e' = None"
  then show "joinNodeStats device e' (graph, h) = (graph, h)"
    by (rule joinNodeStats_unmatched)
next
  show "fst (joinStatsInfoWithGraph graph h stats devicesForStats) = graph"
    by (simp add: joinStatsInfoWithGraph_def fold_joinDeviceStats_fst)
qed

theorem C8_negative_bytes_and_unknown_node_witness:
  "matchedNode exampleGraph (traceEntry ''X'' (- 5)) = Some 0 \<and>
   bytesOf (exampleStore ! 0) = 7 \<and>
   bytesOf (snd (joinNodeStats ''cpu'' (traceEntry ''X'' (- 5)) (exampleGraph, exampleStore)) ! 0) = 7 \<and>
   matchedNode exampleGraph (traceEntry ''Q'' 3) = None \<and>
   joinNodeStats ''cpu'' (traceEntry ''Q'' 3) (exampleGraph, exampleStore)
     = (exampleGraph, exampleStore)"
proof -
  have m: "matchedNode exampleGraph (traceEntry ''X'' (- 5)) = Some 0"
    by (simp add: matchedNode_def lookupName_def exampleGraph_def traceEntry_def)
  have q: "matchedNode exampleGraph (traceEntry ''Q'' 3) = None"
    by (simp add: matchedNode_def lookupName_def exampleGraph_def traceEntry_def
        getStrictName_def)
  have b: "bytesOf (exampleStore ! 0) = 7"
    by (simp add: bytesOf_def exampleStore_def exampleNode_def)
  have mem: "ns_memory (traceEntry ''X'' (- 5)) = Some [\<lparr>total_bytes = Some (- 5)\<rparr>]"
    by (simp add: traceEntry_def)
  show ?thesis
    using C8_negative_bytes_and_unknown_node
      [of exampleGraph "traceEntry ''X'' (- 5)" 0 "''cpu''" exampleStore "traceEntry ''Q'' 3"]
      m q b mem by simp
qed

text \<open>
  Claim C10: the merge first resets the stats of every node of the graph, so a node that
  no trace entry of a selected device matches has no stats after the merge, whatever
  stats it had before; and the result of the merge is that of the merge on the store
  with all stats reset, so nothing of a previous merge is accumulated.
\<close>

theorem C10_unmatched_nodes_have_no_stats:
  assumes "(nm, a) \<in> set (nodes graph)" and "a < length h"
    and "\<forall>ds\<in>set (dev_stats stats). deviceSelected devicesForStats (dss_device ds) \<longrightarrow>
           (\<forall>e\<in>set (dss_node_stats ds). matchedNode graph e \<noteq> Some a)"
  shows "n_stats (snd (joinStatsInfoWithGraph graph h stats devicesForStats) ! a) = None \<and>
         joinStatsInfoWithGraph graph h stats devicesForStats =
           joinStatsInfoWithGraph graph (resetStats graph h) stats devicesForStats"
proof -
  have "snd (joinStatsInfoWithGraph graph h stats devicesForStats) ! a = resetStats graph h ! a"
    unfolding joinStatsInfoWithGraph_def
    using assms(3) fold_joinDeviceStats_other
      [of "dev_stats stats" devicesForStats "(graph, resetStats graph h)" a]
    by simp
  then have "n_stats (snd (joinStatsInfoWithGraph graph h stats devicesForStats) ! a) = None"
    using resetStats_resets [OF assms(1,2)] by simp
  then show ?thesis by (simp add: joinStatsInfoWithGraph_def resetStats_idem)
qed

theorem C10_unmatched_nodes_have_no_stats_witness:
  "n_stats (exampleStore ! 1) \<noteq> None \<and>
   n_stats (snd (joinStatsInfoWithGraph exampleGraph exampleStore exampleTrace None) ! 1) = None"
proof -
  have 1: "(''Y'', 1) \<in> set (nodes exampleGraph)" by (simp add: exampleGraph_def)
  have 2: "1 < length exampleStore" by (simp add: exampleStore_def)
  have 3: "\<forall>ds\<in>set (dev_stats exampleTrace). deviceSelected None (dss_device ds) \<longrightarrow>
           (\<forall>e\<in>set (dss_node_stats ds). matchedNode exampleGraph e \<noteq> Some 1)"
    by (simp add: exampleTrace_def matchedNode_def lookupName_def exampleGraph_def traceEntry_def)
  have 4: "n_stats (exampleStore ! 1) \<noteq> None"
    by (simp add: exampleStore_def exampleNode_def)
  show ?thesis
    by (rule conjI [OF 4 conjunct1 [OF C10_unmatched_nodes_have_no_stats [OF 1 2 3]]])
qed

section \<open>Properties of the graph builder\<close>

subsection \<open>No self loops\<close>

lemma addEdgeToGraph_noSelfLoop:
  "noSelfLoop graph \<Longrightarrow> noSelfLoop (addEdgeToGraph graph inputName outputNode input params i)"
  by (simp add: addEdgeToGraph_def noSelfLoop_def)

lemma fold_addEdge_noSelfLoop:
  "noSelfLoop graph \<Longrightarrow>
   noSelfLoop (fold (\<lambda>x g. addEdgeToGraph g (f x) outputNode (k x) params i) xs graph)"
  by (induction xs arbitrary: graph) (simp_all add: addEdgeToGraph_noSelfLoop)

lemma addInput_noSelfLoop:
  "noSelfLoop (fst gh) \<Longrightarrow> noSelfLoop (fst (addInput dict st params a iinput gh))"
  by (cases gh; cases iinput)
     (simp add: addInput_def Let_def fold_addEdge_noSelfLoop addEdgeToGraph_noSelfLoop
        split: option.splits)

lemma fold_addInput_noSelfLoop:
  "noSelfLoop (fst gh) \<Longrightarrow> noSelfLoop (fst (fold (addInput dict st params a) xs gh))"
  by (induction xs arbitrary: gh) (simp_all add: addInput_noSelfLoop)

lemma addInputs_noSelfLoop:
  "noSelfLoop (fst gh) \<Longrightarrow> noSelfLoop (fst (addInputs dict st params a gh))"
  by (simp add: addInputs_def fold_addInput_noSelfLoop)

lemma fold_addInputs_noSelfLoop:
  "noSelfLoop (fst gh) \<Longrightarrow> noSelfLoop (fst (fold (addInputs dict st params) as gh))"
  by (induction as arbitrary: gh) (simp_all add: addInputs_noSelfLoop)

lemma addNode_edges: "edges (fst (addNode dict embs a gh)) = edges (fst gh)"
  by (cases gh) (simp add: addNode_def Let_def)

lemma fold_addNode_edges: "edges (fst (fold (addNode dict embs) as gh)) = edges (fst gh)"
  by (induction as arbitrary: gh) (simp_all add: addNode_edges)

lemma buildGraph_noSelfLoop: "noSelfLoop (fst (buildGraph params st))"
proof -
  have "noSelfLoop (fst (fold (addNode (mapStrictHierarchy (nodeNames st) (embeddingNodeNames st))
           (outEmbeddings st)) (opNodes st) (\<lparr>nodes = [], edges = []\<rparr>, heap st)))"
    by (simp add: noSelfLoop_def fold_addNode_edges)
  then show ?thesis
    by (simp add: buildGraph_def Let_def fold_addInputs_noSelfLoop)
qed

lemma build_InrD:
  assumes "build matches graphDef params = Inr (graph, h, graphDef')"
  shows "\<exists>st. normalizeNames matches params graphDef = Inr (st, graphDef') \<and>
              buildGraph params st = (graph, h)"
  using assms by (auto simp: build_def split: sum.splits prod.splits)

text \<open>
  Claim C7: whatever the graph description and the parameters, every edge of the built
  graph has a source name different from its destination name.
\<close>

theorem C7_no_self_loops:
  assumes "build matches graphDef params = Inr (graph, h, graphDef')"
  shows "\<forall>e\<in>set (edges graph). edge_v e \<noteq> edge_w e"
proof -
  obtain st where "buildGraph params st = (graph, h)"
    using build_InrD [OF assms] by blast
  then have "graph = fst (buildGraph params st)" by simp
  then have "noSelfLoop graph" by (simp add: buildGraph_noSelfLoop)
  then show ?thesis by (simp add: noSelfLoop_def list_all_iff)
qed

lemma exampleGraphDef_builds: "\<not> isl (build literalMatch exampleGraphDef exampleParams)"
  by code_simp

lemma exampleGraphDef_edges:
  "edges (fst (projr (build literalMatch exampleGraphDef exampleParams))) =
     [\<lparr>edge_v = ''M/(M)'', edge_w = ''N'', edge_outputTensorKey = ''0'',
       edge_isControlDependency = True, isReferenceEdge = True\<rparr>,
      \<lparr>edge_v = ''M/(M)'', edge_w = ''N'', edge_outputTensorKey = ''0'',
       edge_isControlDependency = True, isReferenceEdge = False\<rparr>,
      \<lparr>edge_v = ''N'', edge_w = ''M/X'', edge_outputTensorKey = ''0'',
       edge_isControlDependency = False, isReferenceEdge = False\<rparr>]"
  by code_simp

theorem C7_no_self_loops_witness:
  "\<not> isl (build literalMatch exampleGraphDef exampleParams) \<and>
   length (edges (fst (projr (build literalMatch exampleGraphDef exampleParams)))) = 3 \<and>
   noSelfLoop (fst (projr (build literalMatch exampleGraphDef exampleParams)))"
proof -
  obtain graph h d where b: "build literalMatch exampleGraphDef exampleParams = Inr (graph, h, d)"
    using exampleGraphDef_builds
    by (cases "build literalMatch exampleGraphDef exampleParams") auto
  have "noSelfLoop graph"
    using C7_no_self_loops [OF b] by (simp add: noSelfLoop_def list_all_iff)
  then show ?thesis using exampleGraphDef_edges by (simp add: b)
qed

subsection \<open>Running the builder twice\<close>

lemma extractOutputShapesLoop_keeps:
  "list_all (\<lambda>a. attr_key a \<noteq> OUTPUT_SHAPES_KEY) as \<Longrightarrow>
   extractOutputShapesLoop pre as = Inr (None, pre @ as)"
  by (induction as arbitrary: pre) simp_all

lemma newOpNode_keeps:
  "keepsAttrs rawNode \<Longrightarrow> newOpNode rawNode = Inr (node, rawNode') \<Longrightarrow> rawNode' = rawNode"
  by (auto simp: keepsAttrs_def newOpNode_def extractOutputShapes_def
      extractOutputShapesLoop_keeps split: option.splits)

lemma processRawNode_keeps:
  "keepsAttrs rawNode \<Longrightarrow> processRawNode matches params st rawNode = Inr (st', a, rawNode')
   \<Longrightarrow> rawNode' = rawNode"
  by (auto simp: processRawNode_def Let_def split: sum.splits if_splits dest: newOpNode_keeps)

lemma processRawNodes_keeps:
  "list_all keepsAttrs rs \<Longrightarrow> processRawNodes matches params st rs = Inr (st', rs')
   \<Longrightarrow> rs' = rs"
proof (induction rs arbitrary: st rs')
  case Nil then show ?case by simp
next
  case (Cons r rs)
  then show ?case
    by (auto split: sum.splits dest: processRawNode_keeps)
qed

lemma processFunction_keeps:
  "fd_node_def func = [] \<Longrightarrow> processFunction matches params st func = Inr (st', func')
   \<Longrightarrow> func' = func"
  by (auto simp: processFunction_def Let_def split: sum.splits)

lemma processFunctions_keeps:
  "list_all (\<lambda>func. fd_node_def func = []) funcs \<Longrightarrow>
   processFunctions matches params st funcs = Inr (st', funcs') \<Longrightarrow> funcs' = funcs"
proof (induction funcs arbitrary: st funcs')
  case Nil then show ?case by simp
next
  case (Cons f fs)
  then show ?case
    by (auto split: sum.splits dest: processFunction_keeps)
qed

lemma normalizeNames_keeps:
  "untouchedByBuild graphDef \<Longrightarrow> normalizeNames matches params graphDef = Inr (st, graphDef')
   \<Longrightarrow> graphDef' = graphDef"
proof -
  assume u: "untouchedByBuild graphDef"
    and n: "normalizeNames matches params graphDef = Inr (st, graphDef')"
  obtain st1 rs' where r: "processRawNodes matches params initialState (gd_node graphDef) = Inr (st1, rs')"
    using n by (auto simp: normalizeNames_def split: sum.splits)
  have rs: "rs' = gd_node graphDef"
    using u r by (auto simp: untouchedByBuild_def dest: processRawNodes_keeps)
  show ?thesis
  proof (cases "gd_library graphDef")
    case None
    then show ?thesis using n r rs by (simp add: normalizeNames_def)
  next
    case (Some funcs)
    then obtain funcs' where f: "processFunctions matches params st1 funcs = Inr (st, funcs')"
      and g: "graphDef' = graphDef\<lparr>gd_node := rs', gd_library := Some funcs'\<rparr>"
      using n r by (auto simp: normalizeNames_def split: sum.splits)
    have "funcs' = funcs"
      using u f Some by (auto simp: untouchedByBuild_def dest: processFunctions_keeps)
    then show ?thesis using g rs Some by simp
  qed
qed

text \<open>
  Claim C9, as the specification states it: running the build twice on the same raw
  graph description gives the same node dictionary with the same nodes. For the
  description with one node that has an output shapes attribute, the first run takes the
  attribute out of the raw node, so the node of the first run has the output shapes and
  the node of the second run has none.
\<close>

theorem C9_second_run_differs:
  "\<not> isl (buildTwice literalMatch shapesGraphDef exampleParams) \<and>
   fst (projr (buildTwice literalMatch shapesGraphDef exampleParams)) \<noteq>
   snd (projr (buildTwice literalMatch shapesGraphDef exampleParams)) \<and>
   map n_outputShapes (snd (fst (projr (buildTwice literalMatch shapesGraphDef exampleParams))))
     = [Some [Some [Some 3]]] \<and>
   map n_outputShapes (snd (snd (projr (buildTwice literalMatch shapesGraphDef exampleParams))))
     = [None]"
proof -
  have 1: "\<not> isl (buildTwice literalMatch shapesGraphDef exampleParams)"
    by code_simp
  have 2: "map n_outputShapes (snd (fst (projr (buildTwice literalMatch shapesGraphDef exampleParams))))
     = [Some [Some [Some 3]]]"
    by code_simp
  have 3: "map n_outputShapes (snd (snd (projr (buildTwice literalMatch shapesGraphDef exampleParams))))
     = [None]"
    by code_simp
  from 2 3 have "fst (projr (buildTwice literalMatch shapesGraphDef exampleParams)) \<noteq>
   snd (projr (buildTwice literalMatch shapesGraphDef exampleParams))"
    by auto
  with 1 2 3 show ?thesis by blast
qed

text \<open>
  Claim C9, amended: when no raw node of the description has an output shapes attribute
  and no library function has body nodes, a run of the build leaves the description as
  it was, and running the build twice on it gives the same node dictionary, the same
  nodes and the same edge list.
\<close>

theorem C9_build_twice_same:
  assumes "untouchedByBuild graphDef"
    and "build matches graphDef params = Inr (graph, h, graphDef')"
  shows "graphDef' = graphDef \<and>
         buildTwice matches graphDef params = Inr ((graph, h), (graph, h))"
proof -
  obtain st where "normalizeNames matches params graphDef = Inr (st, graphDef')"
    using build_InrD [OF assms(2)] by blast
  then have "graphDef' = graphDef" using assms(1) by (rule normalizeNames_keeps [rotated])
  then show ?thesis using assms(2) by (simp add: buildTwice_def)
qed

theorem C9_build_twice_same_witness:
  "untouchedByBuild exampleGraphDef \<and>
   \<not> isl (buildTwice literalMatch exampleGraphDef exampleParams) \<and>
   fst (projr (buildTwice literalMatch exampleGraphDef exampleParams)) =
   snd (projr (buildTwice literalMatch exampleGraphDef exampleParams))"
proof -
  have u: "untouchedByBuild exampleGraphDef" by code_simp
  obtain graph h d where b: "build literalMatch exampleGraphDef exampleParams = Inr (graph, h, d)"
    using exampleGraphDef_builds
    by (cases "build literalMatch exampleGraphDef exampleParams") auto
  show ?thesis using C9_build_twice_same [OF u b] u by simp
qed

subsection \<open>The first task: nodes by kind\<close>








lemma filter_upt_Suc:
  "filter P [0..<Suc n] = filter P [0..<n] @ (if P n then [n] else [])"
  by simp






lemma classified_nodeNames:
  "classified matches params rs st \<Longrightarrow> nodeNames st = map (\<lambda>i. nd_name (rs ! i)) (opNodes st)"
  by (simp add: classified_def)









subsection \<open>The second task: what the loops change\<close>






































subsection \<open>Out-embeddings between main nodes\<close>







subsection \<open>The first task with library functions\<close>

























subsection \<open>The edge through an out-embedding\<close>















end
